theory Spec2Isabelle
  imports Complex_Main
begin

section \<open>The Python runtime the library relies on\<close>

text \<open>
  The library is one Python module of thirteen formulas over motor parameters.
  Python's \<^verbatim>\<open>float\<close> is modelled by \<^typ>\<open>real\<close>: arithmetic is exact, so overflow,
  infinities, NaN and binary rounding error are outside the model. Under that reading
  \<^verbatim>\<open>float(x)\<close> applied to a numeric parameter is the identity.
  The rounding precision \<^verbatim>\<open>dec\<close> is a Python \<^verbatim>\<open>int\<close>, hence \<^typ>\<open>int\<close>.

  Every exception the runtime can raise inside a formula is a value of \<open>py_error\<close>,
  and a call returns \<open>py_error + real\<close>, with \<open>Inl\<close> for the exception that
  reaches the caller (no function of the module has a \<^verbatim>\<open>try\<close>).
\<close>

datatype py_error = ZeroDivisionError | ValueError | NameError | TypeError

definition bindE :: "py_error + 'a \<Rightarrow> ('a \<Rightarrow> py_error + 'b) \<Rightarrow> py_error + 'b" where
  "bindE m f = (case m of Inl e \<Rightarrow> Inl e | Inr v \<Rightarrow> f v)"

text \<open>\<^verbatim>\<open>a / b\<close> on floats: raises \<^verbatim>\<open>ZeroDivisionError\<close> when the divisor is zero.\<close>

definition truediv :: "real \<Rightarrow> real \<Rightarrow> py_error + real" where
  "truediv a b = (if b = 0 then Inl ZeroDivisionError else Inr (a / b))"

text \<open>\<^verbatim>\<open>math.sqrt(x)\<close>: raises \<^verbatim>\<open>ValueError\<close> (math domain error) on a negative argument.\<close>

definition math_sqrt :: "real \<Rightarrow> py_error + real" where
  "math_sqrt x = (if x < 0 then Inl ValueError else Inr (sqrt x))"

text \<open>
  The built-in \<^verbatim>\<open>round(x, ndigits)\<close> of Python 3 on a float: the nearest multiple of
  \<open>10\<close> to the power \<open>- ndigits\<close>, a tie going to the even multiple. A negative
  \<^verbatim>\<open>ndigits\<close> rounds to tens, hundreds and so on.
\<close>

definition round_half_even :: "real \<Rightarrow> int" where
  "round_half_even x =
     (let f = \<lfloor>x\<rfloor>; d = x - of_int f
      in if d < 1 / 2 then f
         else if 1 / 2 < d then f + 1
         else if even f then f else f + 1)"

definition py_round :: "real \<Rightarrow> int \<Rightarrow> real" where
  "py_round x dec =
     (if 0 \<le> dec
      then of_int (round_half_even (x * 10 ^ nat dec)) / 10 ^ nat dec
      else of_int (round_half_even (x / 10 ^ nat (- dec))) * 10 ^ nat (- dec))"

text \<open>
  A name that is not a parameter of the running function is looked up in the module's
  global namespace (and then among the built-ins, none of which is called \<^verbatim>\<open>w_0\<close>).
  The module binds \<^verbatim>\<open>math\<close> by its import and one name for each of its functions.
\<close>

datatype py_object = Float real | ModuleObj | FunctionObj

definition module_globals :: "(string \<times> py_object) list" where
  "module_globals =
     [(''math'', ModuleObj),
      (''torque_constant'', FunctionObj),
      (''electrical_constant'', FunctionObj),
      (''speed_constant'', FunctionObj),
      (''motor_constant'', FunctionObj),
      (''max_continuous_current'', FunctionObj),
      (''max_continuous_torque'', FunctionObj),
      (''short_circuit_damping'', FunctionObj),
      (''electrical_time_constant'', FunctionObj),
      (''mechanical_time_constant'', FunctionObj),
      (''stall_current'', FunctionObj),
      (''stall_torque'', FunctionObj),
      (''max_mechanical_power'', FunctionObj),
      (''max_efficiency'', FunctionObj)]"

definition load_global :: "string \<Rightarrow> py_error + py_object" where
  "load_global name =
     (case map_of module_globals name of
        None \<Rightarrow> Inl NameError
      | Some v \<Rightarrow> Inr v)"

text \<open>\<^verbatim>\<open>float(v)\<close> on an object taken from the namespace.\<close>

fun py_float :: "py_object \<Rightarrow> py_error + real" where
  "py_float (Float r) = Inr r"
| "py_float ModuleObj = Inl TypeError"
| "py_float FunctionObj = Inl TypeError"

section \<open>The thirteen formulas\<close>

text \<open>
  Each definition follows the source expression in Python's evaluation order: the
  operands of an operator left to right, the arguments of a call before the call.
\<close>

text \<open>\<^verbatim>\<open>return round(V_nom/float(w_0), dec)\<close>\<close>

definition torque_constant :: "real \<Rightarrow> real \<Rightarrow> int \<Rightarrow> py_error + real" where
  "torque_constant V_nom w_0 dec =
     bindE (truediv V_nom w_0) (\<lambda>q. Inr (py_round q dec))"

text \<open>\<^verbatim>\<open>return V_nom/float(w_0)\<close>\<close>

definition electrical_constant :: "real \<Rightarrow> real \<Rightarrow> int \<Rightarrow> py_error + real" where
  "electrical_constant V_nom w_0 dec = truediv V_nom w_0"

text \<open>\<^verbatim>\<open>return w_0/float(V_nom)\<close>\<close>

definition speed_constant :: "real \<Rightarrow> real \<Rightarrow> int \<Rightarrow> py_error + real" where
  "speed_constant V_nom w_0 dec = truediv w_0 V_nom"

text \<open>\<^verbatim>\<open>return round(V_nom/(float(w_0)*math.sqrt(R)), dec)\<close>\<close>

definition motor_constant :: "real \<Rightarrow> real \<Rightarrow> real \<Rightarrow> int \<Rightarrow> py_error + real" where
  "motor_constant V_nom w_0 R dec =
     bindE (math_sqrt R) (\<lambda>s.
     bindE (truediv V_nom (w_0 * s)) (\<lambda>q.
     Inr (py_round q dec)))"

text \<open>\<^verbatim>\<open>return math.sqrt((P/float(R)))\<close>\<close>

definition max_continuous_current :: "real \<Rightarrow> real \<Rightarrow> int \<Rightarrow> py_error + real" where
  "max_continuous_current P R dec =
     bindE (truediv P R) (\<lambda>q. math_sqrt q)"

text \<open>
  \<^verbatim>\<open>return V_nom*(math.sqrt((P/R))/float(w_0))\<close>, where \<^verbatim>\<open>w_0\<close> is not a
  parameter: the quotient and the square root are evaluated first, then the name
  is looked up.
\<close>

definition max_continuous_torque :: "real \<Rightarrow> real \<Rightarrow> real \<Rightarrow> int \<Rightarrow> py_error + real" where
  "max_continuous_torque P R V_nom dec =
     bindE (truediv P R) (\<lambda>q.
     bindE (math_sqrt q) (\<lambda>s.
     bindE (load_global ''w_0'') (\<lambda>g.
     bindE (py_float g) (\<lambda>w.
     bindE (truediv s w) (\<lambda>t.
     Inr (V_nom * t))))))"

text \<open>\<^verbatim>\<open>return round((V_nom**2)/float(((w_0**2)*R)), dec)\<close>\<close>

definition short_circuit_damping :: "real \<Rightarrow> real \<Rightarrow> real \<Rightarrow> int \<Rightarrow> py_error + real" where
  "short_circuit_damping V_nom w_0 R dec =
     bindE (truediv (V_nom ^ 2) ((w_0 ^ 2) * R)) (\<lambda>q. Inr (py_round q dec))"

text \<open>\<^verbatim>\<open>return round((L/float(R)), dec)\<close>\<close>

definition electrical_time_constant :: "real \<Rightarrow> real \<Rightarrow> int \<Rightarrow> py_error + real" where
  "electrical_time_constant L R dec =
     bindE (truediv L R) (\<lambda>q. Inr (py_round q dec))"

text \<open>\<^verbatim>\<open>return round((J*R*(w_0**2))/float((V_nom**2)), dec)\<close>\<close>

definition mechanical_time_constant ::
  "real \<Rightarrow> real \<Rightarrow> real \<Rightarrow> real \<Rightarrow> int \<Rightarrow> py_error + real" where
  "mechanical_time_constant J R V_nom w_0 dec =
     bindE (truediv (J * R * (w_0 ^ 2)) (V_nom ^ 2)) (\<lambda>q. Inr (py_round q dec))"

text \<open>\<^verbatim>\<open>return round((V_nom/float(R)), dec)\<close>\<close>

definition stall_current :: "real \<Rightarrow> real \<Rightarrow> int \<Rightarrow> py_error + real" where
  "stall_current R V_nom dec =
     bindE (truediv V_nom R) (\<lambda>q. Inr (py_round q dec))"

text \<open>\<^verbatim>\<open>return round(((V_nom**2)/float(R*w_0)), dec)\<close>\<close>

definition stall_torque :: "real \<Rightarrow> real \<Rightarrow> real \<Rightarrow> int \<Rightarrow> py_error + real" where
  "stall_torque R V_nom w_0 dec =
     bindE (truediv (V_nom ^ 2) (R * w_0)) (\<lambda>q. Inr (py_round q dec))"

text \<open>\<^verbatim>\<open>return round(((V_nom**2)/float((4*R))), dec)\<close>\<close>

definition max_mechanical_power :: "real \<Rightarrow> real \<Rightarrow> int \<Rightarrow> py_error + real" where
  "max_mechanical_power R V_nom dec =
     bindE (truediv (V_nom ^ 2) (4 * R)) (\<lambda>q. Inr (py_round q dec))"

text \<open>\<^verbatim>\<open>return round(((1-math.sqrt((I_0*R))/float(V_nom))**2), dec)\<close>\<close>

definition max_efficiency :: "real \<Rightarrow> real \<Rightarrow> real \<Rightarrow> int \<Rightarrow> py_error + real" where
  "max_efficiency I_0 R V_nom dec =
     bindE (math_sqrt (I_0 * R)) (\<lambda>s.
     bindE (truediv s V_nom) (\<lambda>q.
     Inr (py_round ((1 - q) ^ 2) dec)))"

section \<open>Facts about the runtime\<close>

lemmas runtime_defs = bindE_def truediv_def math_sqrt_def

lemmas round_defs = py_round_def round_half_even_def Let_def

text \<open>The module's namespace has no binding for \<^verbatim>\<open>w_0\<close>.\<close>

lemma load_global_w_0: "load_global ''w_0'' = Inl NameError"
  by (simp add: load_global_def module_globals_def)

text \<open>
  What \<open>py_round\<close> computes: for a non-negative precision the result is a whole
  number of units of \<open>10\<close> to the power \<open>- dec\<close>, at most half a unit away from
  its argument.
\<close>

lemma round_half_even_error: "\<bar>of_int (round_half_even x) - x\<bar> \<le> 1 / 2"
proof -
  have lo: "of_int \<lfloor>x\<rfloor> \<le> x" by simp
  have hi: "x < of_int \<lfloor>x\<rfloor> + 1" by linarith
  show ?thesis
    using lo hi by (auto simp: round_half_even_def Let_def)
qed

lemma py_round_error:
  assumes "0 \<le> dec"
  shows "\<bar>py_round x dec - x\<bar> \<le> 1 / (2 * 10 ^ nat dec)"
proof -
  define s :: real where "s = 10 ^ nat dec"
  define a :: real where "a = of_int (round_half_even (x * s))"
  have pos: "0 < s" by (simp add: s_def)
  have "\<bar>a - x * s\<bar> \<le> 1 / 2"
    unfolding a_def by (rule round_half_even_error)
  then have "\<bar>a - x * s\<bar> / s \<le> (1 / 2) / s"
    by (rule divide_right_mono) (use pos in simp)
  moreover have "a / s - x = (a - x * s) / s"
    using pos by (simp add: field_simps)
  then have "\<bar>a / s - x\<bar> = \<bar>a - x * s\<bar> / s"
    using pos by simp
  ultimately have "\<bar>a / s - x\<bar> \<le> 1 / (2 * s)"
    by simp
  then show ?thesis
    using assms by (simp add: py_round_def a_def s_def)
qed

lemma py_round_grid:
  "0 \<le> dec \<Longrightarrow> \<exists>k::int. py_round x dec * 10 ^ nat dec = of_int k"
  by (simp add: py_round_def)

section \<open>The undefined name in the maximum continuous torque\<close>

text \<open>
  Claim C1 says that every call of \<open>max_continuous_torque\<close> ends in the name error
  for \<^verbatim>\<open>w_0\<close>, whatever the input. The quotient \<^verbatim>\<open>P/R\<close> and its square root are
  evaluated before the name is looked up, so a zero resistance ends in the division
  error and a negative quotient in the domain error of the square root instead.
\<close>

theorem max_continuous_torque_name_error_counterexample:
  "max_continuous_torque 100 0 24 1 = Inl ZeroDivisionError \<and>
   max_continuous_torque 100 0 24 1 \<noteq> Inl NameError \<and>
   max_continuous_torque (- 100) 2 24 1 = Inl ValueError \<and>
   max_continuous_torque (- 100) 2 24 1 \<noteq> Inl NameError"
  by (simp add: max_continuous_torque_def runtime_defs)

text \<open>
  C1 as amended: no call of \<open>max_continuous_torque\<close> returns a value. The exception
  is the division error when \<open>R\<close> is zero, the domain error when \<open>P / R\<close> is
  negative, and the name error for \<^verbatim>\<open>w_0\<close> on every other input.
\<close>

theorem max_continuous_torque_never_returns:
  "max_continuous_torque P R V_nom dec =
     (if R = 0 then Inl ZeroDivisionError
      else if P / R < 0 then Inl ValueError
      else Inl NameError)"
  by (simp add: max_continuous_torque_def runtime_defs load_global_w_0)

theorem max_continuous_torque_never_returns_witness:
  "max_continuous_torque 100 2 24 1 = Inl NameError"
  using max_continuous_torque_never_returns [of 100 2 24 1] by simp

section \<open>Rounding of the result\<close>

text \<open>
  Claim C2 says that every function but \<open>electrical_constant\<close> and
  \<open>speed_constant\<close> returns its formula rounded to \<open>dec\<close> places.
  \<open>max_continuous_current\<close> does not: with \<open>P = 25\<close>, \<open>R = 16\<close> and
  \<open>dec = 0\<close> it returns \<open>5 / 4\<close>, which rounded to no decimal places is \<open>1\<close>.
\<close>

theorem max_continuous_current_not_rounded_at:
  "max_continuous_current 25 16 0 = Inr (5 / 4) \<and> py_round (5 / 4) 0 = 1"
  by (simp add: max_continuous_current_def runtime_defs real_sqrt_divide round_defs)

text \<open>
  Claim C3 says that for every \<open>V_nom\<close>, \<open>w_0\<close> and \<open>dec\<close> the electrical constant
  returns \<open>V_nom / w_0\<close> and the speed constant \<open>w_0 / V_nom\<close>. With a zero divisor
  neither returns anything.
\<close>

theorem electrical_constant_zero_divisor_counterexample:
  "electrical_constant 24 0 1 = Inl ZeroDivisionError \<and>
   electrical_constant 24 0 1 \<noteq> Inr (24 / 0) \<and>
   speed_constant 0 754 1 = Inl ZeroDivisionError \<and>
   speed_constant 0 754 1 \<noteq> Inr (754 / 0)"
  by (simp add: electrical_constant_def speed_constant_def runtime_defs)

text \<open>
  C3 as amended: for every \<open>V_nom\<close>, every \<open>w_0\<close> other than zero and every
  \<open>dec\<close>, \<open>electrical_constant\<close> returns the quotient \<open>V_nom / w_0\<close> as it is; for
  every \<open>w_0\<close>, every \<open>V_nom\<close> other than zero and every \<open>dec\<close>,
  \<open>speed_constant\<close> returns \<open>w_0 / V_nom\<close> as it is; and on every input the outcome
  of either function is the same for any two values of \<open>dec\<close>.
\<close>

theorem electrical_speed_constant_unrounded:
  "(w_0 \<noteq> 0 \<longrightarrow> electrical_constant V_nom w_0 dec = Inr (V_nom / w_0)) \<and>
   (V_nom \<noteq> 0 \<longrightarrow> speed_constant V_nom w_0 dec = Inr (w_0 / V_nom)) \<and>
   electrical_constant V_nom w_0 dec = electrical_constant V_nom w_0 dec' \<and>
   speed_constant V_nom w_0 dec = speed_constant V_nom w_0 dec'"
  by (simp add: electrical_constant_def speed_constant_def runtime_defs)

text \<open>
  At \<open>V_nom = 24\<close>, \<open>w_0 = 754\<close> and the default \<open>dec = 1\<close> the two results are
  the quotients themselves, not their roundings to one place (\<open>0\<close> and \<open>31.4\<close>).
\<close>

theorem electrical_speed_constant_unrounded_witness:
  "electrical_constant 24 754 1 = Inr (24 / 754) \<and>
   speed_constant 24 754 1 = Inr (754 / 24) \<and>
   py_round (24 / 754) 1 = 0 \<and> py_round (754 / 24) 1 = 314 / 10"
  using electrical_speed_constant_unrounded [of 754 24 1 1]
  by (simp add: round_defs)





text \<open>
  Claim C9: for positive \<open>P\<close> and \<open>R\<close>, \<open>max_continuous_current\<close> returns the
  square root of \<open>P / R\<close> unrounded, and \<open>dec\<close> has no effect on the result.
\<close>

theorem max_continuous_current_unrounded:
  "(0 < P \<longrightarrow> 0 < R \<longrightarrow> max_continuous_current P R dec = Inr (sqrt (P / R))) \<and>
   max_continuous_current P R dec = max_continuous_current P R dec'"
  by (simp add: max_continuous_current_def runtime_defs divide_less_0_iff)

theorem max_continuous_current_unrounded_witness:
  "max_continuous_current 25 16 0 = Inr (sqrt (25 / 16)) \<and>
   max_continuous_current 25 16 0 = max_continuous_current 25 16 7"
  using max_continuous_current_unrounded [of 25 16 0 7] by auto

text \<open>
  Claim C10: for positive \<open>V_nom\<close> and \<open>w_0\<close>, \<open>torque_constant\<close> with precision
  \<open>dec\<close> is \<open>electrical_constant\<close> (called with any precision \<open>dec'\<close>) rounded to
  \<open>dec\<close> places: both compute \<open>V_nom / w_0\<close>, and only the first rounds it.
\<close>

theorem torque_constant_rounds_electrical_constant:
  "0 < V_nom \<Longrightarrow> 0 < w_0 \<Longrightarrow>
     electrical_constant V_nom w_0 dec' = Inr (V_nom / w_0) \<and>
     torque_constant V_nom w_0 dec =
       bindE (electrical_constant V_nom w_0 dec') (\<lambda>k. Inr (py_round k dec))"
  by (simp add: torque_constant_def electrical_constant_def runtime_defs)

theorem torque_constant_rounds_electrical_constant_witness:
  "electrical_constant 24 754 1 = Inr (24 / 754) \<and>
   torque_constant 24 754 3 = bindE (electrical_constant 24 754 1) (\<lambda>k. Inr (py_round k 3))"
  using torque_constant_rounds_electrical_constant [of 24 754 1 3] by simp

section \<open>Arithmetic errors\<close>

text \<open>
  Claim C5 says that in every function a zero passed for a parameter of the
  denominator raises the division error. In \<open>motor_constant\<close> and
  \<open>max_efficiency\<close> the square root is evaluated before the division, so with a
  negative argument of the square root the domain error is raised instead.
\<close>

theorem zero_denominator_counterexample:
  "motor_constant 24 0 (- 2) 1 = Inl ValueError \<and>
   motor_constant 24 0 (- 2) 1 \<noteq> Inl ZeroDivisionError \<and>
   max_efficiency (- 1) 2 0 1 = Inl ValueError \<and>
   max_efficiency (- 1) 2 0 1 \<noteq> Inl ZeroDivisionError"
  by (simp add: motor_constant_def max_efficiency_def runtime_defs)

text \<open>
  C5 as amended: in every function a zero passed for a parameter of the denominator
  (\<open>R\<close>, \<open>w_0\<close> or \<open>V_nom\<close>, where the function divides by it) ends the call
  without a value; the exception is the division error, except that
  \<open>motor_constant\<close> with \<open>w_0 = 0\<close> and a negative \<open>R\<close>, and \<open>max_efficiency\<close>
  with \<open>V_nom = 0\<close> and a negative product \<open>I_0 * R\<close>, raise the domain error of
  the square root.
\<close>

theorem zero_denominator_raises:
  "torque_constant V_nom 0 dec = Inl ZeroDivisionError \<and>
   electrical_constant V_nom 0 dec = Inl ZeroDivisionError \<and>
   speed_constant 0 w_0 dec = Inl ZeroDivisionError \<and>
   motor_constant V_nom 0 R dec =
     (if R < 0 then Inl ValueError else Inl ZeroDivisionError) \<and>
   motor_constant V_nom w_0 0 dec = Inl ZeroDivisionError \<and>
   max_continuous_current P 0 dec = Inl ZeroDivisionError \<and>
   max_continuous_torque P 0 V_nom dec = Inl ZeroDivisionError \<and>
   short_circuit_damping V_nom 0 R dec = Inl ZeroDivisionError \<and>
   short_circuit_damping V_nom w_0 0 dec = Inl ZeroDivisionError \<and>
   electrical_time_constant L 0 dec = Inl ZeroDivisionError \<and>
   mechanical_time_constant J R 0 w_0 dec = Inl ZeroDivisionError \<and>
   stall_current 0 V_nom dec = Inl ZeroDivisionError \<and>
   stall_torque 0 V_nom w_0 dec = Inl ZeroDivisionError \<and>
   stall_torque R V_nom 0 dec = Inl ZeroDivisionError \<and>
   max_mechanical_power 0 V_nom dec = Inl ZeroDivisionError \<and>
   max_efficiency I_0 R 0 dec =
     (if I_0 * R < 0 then Inl ValueError else Inl ZeroDivisionError)"
  by (simp add: torque_constant_def electrical_constant_def speed_constant_def
      motor_constant_def max_continuous_current_def max_continuous_torque_def
      short_circuit_damping_def electrical_time_constant_def mechanical_time_constant_def
      stall_current_def stall_torque_def max_mechanical_power_def max_efficiency_def
      runtime_defs)

theorem zero_denominator_raises_witness:
  "stall_current 0 12 1 = Inl ZeroDivisionError \<and>
   motor_constant 24 0 2 1 = Inl ZeroDivisionError \<and>
   max_efficiency 1 2 0 1 = Inl ZeroDivisionError"
  using zero_denominator_raises [of 24 1 754 2 100 1 1 1]
    zero_denominator_raises [of 12 1 754 2 100 1 1 1]
  by simp

text \<open>
  Claim C6: in every function that takes a square root, inputs that make the
  argument of the square root negative raise the domain error: a negative \<open>P / R\<close>
  in \<open>max_continuous_current\<close>, a negative \<open>R\<close> in \<open>motor_constant\<close>, a negative
  \<open>I_0 * R\<close> in \<open>max_efficiency\<close>. The same holds of \<open>max_continuous_torque\<close>,
  the fourth function with a square root.
\<close>

theorem sqrt_domain_error:
  "(P / R < 0 \<longrightarrow> max_continuous_current P R dec = Inl ValueError) \<and>
   (R < 0 \<longrightarrow> motor_constant V_nom w_0 R dec = Inl ValueError) \<and>
   (I_0 * R < 0 \<longrightarrow> max_efficiency I_0 R V_nom dec = Inl ValueError) \<and>
   (P / R < 0 \<longrightarrow> max_continuous_torque P R V_nom dec = Inl ValueError)"
  by (auto simp add: motor_constant_def max_continuous_current_def
      max_continuous_torque_def max_efficiency_def runtime_defs)

theorem sqrt_domain_error_witness:
  "max_continuous_current 100 (- 2) 1 = Inl ValueError \<and>
   motor_constant 24 754 (- 2) 1 = Inl ValueError \<and>
   max_efficiency 1 (- 2) 24 1 = Inl ValueError \<and>
   max_continuous_torque 100 (- 2) 24 1 = Inl ValueError"
  using sqrt_domain_error [of 100 "- 2" 1 24 754 1]
  by simp

end
